theory Spec2Isabelle
  imports Complex_Main "HOL-Library.AList"
begin

section \<open>SVG to Lottie conversion: a shallow embedding of svg\_animator\<close>

text \<open>
  The development follows the three Python modules of the package:
  \<^verbatim>\<open>svg_to_lottie_converter.py\<close> (class SVGToLottieConverter),
  \<^verbatim>\<open>svg_parser.py\<close> (class SVGParser) and
  \<^verbatim>\<open>animation_builder.py\<close> (class AnimationBuilder).

  Conventions of the embedding.
  \<^item> A Python \<open>str\<close> is a \<open>string\<close>; characters are the 256 code points of
    Isabelle's \<open>char\<close>, so code points above 255 are outside the model.
  \<^item> A Python method \<open>_name\<close> is the constant \<open>name\<close>: an identifier cannot start
    with an underscore.
  \<^item> An exception is a value \<open>Inl e\<close> of a sum type; a \<open>try/except\<close> is a case
    distinction on that value.
  \<^item> A Python \<open>float\<close> that is finite is given by the exact rational value of the
    expression that produces it; the rounding of binary floating point is not modelled.
    What is modelled is when \<open>int\<close>, \<open>float\<close> and \<open>/\<close> raise.
\<close>

datatype py_error = ValueError | OverflowError

text \<open>Sequencing of computations that may raise: the first exception ends the sequence.\<close>

definition and_then :: "py_error + 'a \<Rightarrow> ('a \<Rightarrow> py_error + 'b) \<Rightarrow> py_error + 'b" where
  "and_then m f = (case m of Inl e \<Rightarrow> Inl e | Inr x \<Rightarrow> f x)"

subsection \<open>Python built-ins used by the package\<close>

text \<open>
  A Python \<open>float\<close>: a finite value, given exactly, an infinity or not-a-number.
  An \<open>int\<close> stored in a tuple next to floats is the finite value it equals
  (in Python \<open>1 == 1.0\<close>).
\<close>

datatype py_float = Finite rat | PosInf | NegInf | NaN

definition code_point :: "char \<Rightarrow> nat" where
  "code_point c = of_char c"

text \<open>\<open>str.isspace\<close> and the regular expression class \<open>\s\<close> on code points below 256.\<close>

definition py_isspace :: "char \<Rightarrow> bool" where
  "py_isspace c =
     (let n = code_point c
      in (9 \<le> n \<and> n \<le> 13) \<or> (28 \<le> n \<and> n \<le> 32) \<or> n = 133 \<or> n = 160)"

text \<open>
  The white space that \<open>int\<close> and \<open>float\<close> strip from a \<open>str\<close>: the six of the
  C locale, and the non-ASCII spaces, which the conversion turns into blanks first.
\<close>

definition conv_space :: "char \<Rightarrow> bool" where
  "conv_space c =
     (let n = code_point c
      in (9 \<le> n \<and> n \<le> 13) \<or> n = 32 \<or> n = 133 \<or> n = 160)"

definition py_strip :: "string \<Rightarrow> string" where
  "py_strip s = rev (dropWhile conv_space (rev (dropWhile conv_space s)))"

text \<open>The regular expression class \<open>\d\<close> on code points below 256.\<close>

definition is_digit :: "char \<Rightarrow> bool" where
  "is_digit c = (let n = code_point c in 48 \<le> n \<and> n \<le> 57)"

definition char_lower :: "char \<Rightarrow> char" where
  "char_lower c =
     (let n = code_point c
      in if (65 \<le> n \<and> n \<le> 90) \<or> (192 \<le> n \<and> n \<le> 222 \<and> n \<noteq> 215)
         then char_of (n + 32) else c)"

definition py_lower :: "string \<Rightarrow> string" where
  "py_lower s = map char_lower s"

definition lstrip_char :: "char \<Rightarrow> string \<Rightarrow> string" where
  "lstrip_char x s = dropWhile (\<lambda>c. c = x) s"

definition startswith :: "string \<Rightarrow> string \<Rightarrow> bool" where
  "startswith s p = (take (length p) s = p)"

text \<open>The value of a character as a digit of \<open>int(s, base)\<close>, bases up to 36.\<close>

definition digit_val :: "char \<Rightarrow> nat option" where
  "digit_val c =
     (let n = code_point c
      in if 48 \<le> n \<and> n \<le> 57 then Some (n - 48)
         else if 97 \<le> n \<and> n \<le> 122 then Some (n - 87)
         else if 65 \<le> n \<and> n \<le> 90 then Some (n - 55)
         else None)"

text \<open>
  The digits of an integer literal: single underscores may stand between digits.
  The arguments are the base, the text left, the value so far, the number of digits
  so far, and whether the previous character was an underscore.
\<close>

fun int_digits :: "nat \<Rightarrow> string \<Rightarrow> int \<Rightarrow> nat \<Rightarrow> bool \<Rightarrow> (int \<times> nat) option" where
  "int_digits b [] acc cnt us = (if us then None else Some (acc, cnt))"
| "int_digits b (c # cs) acc cnt us =
     (if c = CHR ''_'' then (if us then None else int_digits b cs acc cnt True)
      else (case digit_val c of
              None \<Rightarrow> None
            | Some d \<Rightarrow> if d < b then int_digits b cs (acc * int b + int d) (Suc cnt) False else None))"

definition split_sign :: "string \<Rightarrow> bool \<times> string" where
  "split_sign t =
     (case t of
        [] \<Rightarrow> (False, [])
      | c # r \<Rightarrow> if c = CHR ''+'' then (False, r)
                else if c = CHR ''-'' then (True, r) else (False, t))"

definition skip_hex_prefix :: "string \<Rightarrow> string" where
  "skip_hex_prefix u =
     (case u of
        a # b # r \<Rightarrow>
          if a = CHR ''0'' \<and> (b = CHR ''x'' \<or> b = CHR ''X'')
          then (case r of [] \<Rightarrow> r | c # r' \<Rightarrow> if c = CHR ''_'' then r' else r)
          else u
      | _ \<Rightarrow> u)"

definition int_max_str_digits :: nat where
  "int_max_str_digits = 4300"

text \<open>
  \<open>int(s, base)\<close> for the bases 10 and 16 (\<open>int(s)\<close> is base 10): white space around the
  literal, an optional sign, for base 16 an optional \<open>0x\<close>, then the digits. In base 10
  a literal of more than 4300 digits raises ValueError (the interpreter's default limit).
\<close>

definition py_int :: "nat \<Rightarrow> string \<Rightarrow> py_error + int" where
  "py_int base s =
     (let (neg, u) = split_sign (py_strip s);
          v = (if base = 16 then skip_hex_prefix u else u)
      in if v = [] \<or> hd v = CHR ''_'' then Inl ValueError
         else (case int_digits base v 0 0 False of
                 None \<Rightarrow> Inl ValueError
               | Some (n, cnt) \<Rightarrow>
                   if base = 10 \<and> cnt > int_max_str_digits then Inl ValueError
                   else Inr (if neg then - n else n)))"

text \<open>
  \<open>n / 255\<close> on an \<open>int\<close>: true division gives the correctly rounded float and raises
  OverflowError when that is beyond the largest float, \<open>2^1024 - 2^971\<close>, that is when
  \<open>|n| / 255 \<ge> 2^1024 - 2^970\<close>.
\<close>

definition div_255 :: "int \<Rightarrow> py_error + py_float" where
  "div_255 n =
     (if \<bar>n\<bar> \<ge> 255 * (2 ^ 1024 - 2 ^ 970) then Inl OverflowError
      else Inr (Finite (of_int n / 255)))"

text \<open>
  \<open>float(s)\<close>: white space around the literal, underscores between digits only,
  an optional sign, then \<open>inf\<close>, \<open>infinity\<close> or \<open>nan\<close> in any case, or a decimal
  literal with an optional fraction and an optional exponent. The value of a decimal
  literal is exact here; a literal beyond the float range is \<open>inf\<close> in Python.
\<close>

fun underscores_ok :: "char \<Rightarrow> string \<Rightarrow> bool" where
  "underscores_ok prev [] = (prev \<noteq> CHR ''_'')"
| "underscores_ok prev (c # cs) =
     (if c = CHR ''_'' then is_digit prev \<and> underscores_ok c cs
      else if prev = CHR ''_'' \<and> \<not> is_digit c then False
      else underscores_ok c cs)"

definition dec_value :: "string \<Rightarrow> int" where
  "dec_value ds = foldl (\<lambda>a c. a * 10 + int (code_point c - 48)) 0 ds"

definition scale10 :: "rat \<Rightarrow> int \<Rightarrow> rat" where
  "scale10 m e = (if e \<ge> 0 then m * 10 ^ nat e else m / 10 ^ nat (- e))"

text \<open>The exponent part: nothing, or \<open>e\<close>, an optional sign and at least one digit.\<close>

definition float_exponent :: "string \<Rightarrow> int option" where
  "float_exponent r =
     (case r of
        [] \<Rightarrow> Some 0
      | c # r1 \<Rightarrow>
          if c = CHR ''e'' \<or> c = CHR ''E'' then
            (let (eneg, r2) = split_sign r1
             in if r2 \<noteq> [] \<and> list_all is_digit r2
                then Some (if eneg then - dec_value r2 else dec_value r2)
                else None)
          else None)"

definition float_literal :: "string \<Rightarrow> rat option" where
  "float_literal t =
     (let ip = takeWhile is_digit t;
          r = dropWhile is_digit t;
          fp = (case r of [] \<Rightarrow> [] | c # r1 \<Rightarrow> if c = CHR ''.'' then takeWhile is_digit r1 else []);
          r' = (case r of [] \<Rightarrow> [] | c # r1 \<Rightarrow> if c = CHR ''.'' then dropWhile is_digit r1 else r)
      in if ip = [] \<and> fp = [] then None
         else (case float_exponent r' of
                 None \<Rightarrow> None
               | Some e \<Rightarrow> Some (scale10 (of_int (dec_value (ip @ fp)) / 10 ^ length fp) e)))"

definition py_float :: "string \<Rightarrow> py_error + py_float" where
  "py_float s =
     (let t = py_strip s
      in if CHR ''_'' \<in> set t \<and> \<not> underscores_ok (CHR '' '') t then Inl ValueError
         else
           (let (neg, u) = split_sign (filter (\<lambda>c. c \<noteq> CHR ''_'') t);
                l = py_lower u
            in if list_all (\<lambda>c. code_point c < 128) u \<and> (l = ''inf'' \<or> l = ''infinity'')
               then Inr (if neg then NegInf else PosInf)
               else if list_all (\<lambda>c. code_point c < 128) u \<and> l = ''nan'' then Inr NaN
               else (case float_literal u of
                       None \<Rightarrow> Inl ValueError
                     | Some m \<Rightarrow> Inr (Finite (if neg then - m else m)))))"

subsection \<open>The color resolver\<close>

text \<open>
  A color is the tuple \<open>(r, g, b, a)\<close> that \<^verbatim>\<open>_parse_color\<close> returns.
\<close>

type_synonym color = "py_float \<times> py_float \<times> py_float \<times> py_float"

definition color_map :: "(string \<times> color) list" where
  "color_map =
     [(''black'', (Finite 0, Finite 0, Finite 0, Finite 1)),
      (''white'', (Finite 1, Finite 1, Finite 1, Finite 1)),
      (''red'', (Finite 1, Finite 0, Finite 0, Finite 1)),
      (''green'', (Finite 0, Finite 1, Finite 0, Finite 1)),
      (''blue'', (Finite 0, Finite 0, Finite 1, Finite 1)),
      (''yellow'', (Finite 1, Finite 1, Finite 0, Finite 1)),
      (''cyan'', (Finite 0, Finite 1, Finite 1, Finite 1)),
      (''magenta'', (Finite 1, Finite 0, Finite 1, Finite 1)),
      (''none'', (Finite 0, Finite 0, Finite 0, Finite 0))]"

definition default_color :: color where
  "default_color = (Finite 0, Finite 0, Finite 0, Finite 1)"

text \<open>\<open>int(x, 16) / 255\<close> and \<open>int(x) / 255\<close>.\<close>

definition hex_channel :: "string \<Rightarrow> py_error + py_float" where
  "hex_channel x = and_then (py_int 16 x) div_255"

definition dec_channel :: "string \<Rightarrow> py_error + py_float" where
  "dec_channel x = and_then (py_int 10 x) div_255"

text \<open>
  The body of the \<open>try\<close> in the hexadecimal branch. \<open>Inr (Some c)\<close> is \<open>return c\<close>,
  \<open>Inr None\<close> is leaving the \<open>if/elif\<close> chain with no branch taken.
  \<^verbatim>\<open>
  color = color_str.lstrip('#')
  if len(color) == 3:
      r = int(color[0] + color[0], 16) / 255 ... return (r, g, b, 1)
  elif len(color) == 6:
      r = int(color[0:2], 16) / 255 ...          return (r, g, b, 1)
  elif len(color) == 8:
      ... a = int(color[6:8], 16) / 255          return (r, g, b, a)
  \<close>
\<close>

definition hex_try :: "string \<Rightarrow> py_error + color option" where
  "hex_try color_str =
     (let color = lstrip_char (CHR ''#'') color_str
      in if length color = 3 then
           and_then (hex_channel [color ! 0, color ! 0]) (\<lambda>r.
           and_then (hex_channel [color ! 1, color ! 1]) (\<lambda>g.
           and_then (hex_channel [color ! 2, color ! 2]) (\<lambda>b.
           Inr (Some (r, g, b, Finite 1)))))
         else if length color = 6 then
           and_then (hex_channel (take 2 color)) (\<lambda>r.
           and_then (hex_channel (take 2 (drop 2 color))) (\<lambda>g.
           and_then (hex_channel (take 2 (drop 4 color))) (\<lambda>b.
           Inr (Some (r, g, b, Finite 1)))))
         else if length color = 8 then
           and_then (hex_channel (take 2 color)) (\<lambda>r.
           and_then (hex_channel (take 2 (drop 2 color))) (\<lambda>g.
           and_then (hex_channel (take 2 (drop 4 color))) (\<lambda>b.
           and_then (hex_channel (take 2 (drop 6 color))) (\<lambda>a.
           Inr (Some (r, g, b, a))))))
         else Inr None)"

text \<open>
  The two regular expressions, matched at the start of the string as \<open>re.match\<close> does:
  \<^verbatim>\<open>rgb\(\s*(\d+)\s*,\s*(\d+)\s*,\s*(\d+)\s*\)\<close> and
  \<^verbatim>\<open>rgba\(\s*(\d+)\s*,\s*(\d+)\s*,\s*(\d+)\s*,\s*([\d\.]+)\s*\)\<close>.
  No two adjacent pieces can match the same character, so matching each piece greedily
  from the left finds the match whenever there is one.
\<close>

definition expect :: "string \<Rightarrow> string \<Rightarrow> string option" where
  "expect p s = (if startswith s p then Some (drop (length p) s) else None)"

text \<open>\<open>\s*(C+)\s*\<close> for a character class \<open>C\<close>: the group and the rest of the text.\<close>

definition spaced_group :: "(char \<Rightarrow> bool) \<Rightarrow> string \<Rightarrow> (string \<times> string) option" where
  "spaced_group C s =
     (let s1 = dropWhile py_isspace s; g = takeWhile C s1
      in if g = [] then None else Some (g, dropWhile py_isspace (dropWhile C s1)))"

definition rgb_match :: "string \<Rightarrow> (string \<times> string \<times> string) option" where
  "rgb_match s =
     Option.bind (expect ''rgb('' s) (\<lambda>s.
     Option.bind (spaced_group is_digit s) (\<lambda>(g1, s).
     Option.bind (expect '','' s) (\<lambda>s.
     Option.bind (spaced_group is_digit s) (\<lambda>(g2, s).
     Option.bind (expect '','' s) (\<lambda>s.
     Option.bind (spaced_group is_digit s) (\<lambda>(g3, s).
     Option.bind (expect '')'' s) (\<lambda>s. Some (g1, g2, g3))))))))"

definition rgba_match :: "string \<Rightarrow> (string \<times> string \<times> string \<times> string) option" where
  "rgba_match s =
     Option.bind (expect ''rgba('' s) (\<lambda>s.
     Option.bind (spaced_group is_digit s) (\<lambda>(g1, s).
     Option.bind (expect '','' s) (\<lambda>s.
     Option.bind (spaced_group is_digit s) (\<lambda>(g2, s).
     Option.bind (expect '','' s) (\<lambda>s.
     Option.bind (spaced_group is_digit s) (\<lambda>(g3, s).
     Option.bind (expect '','' s) (\<lambda>s.
     Option.bind (spaced_group (\<lambda>c. is_digit c \<or> c = CHR ''.'') s) (\<lambda>(g4, s).
     Option.bind (expect '')'' s) (\<lambda>s. Some (g1, g2, g3, g4))))))))))"

definition rgb_try :: "string \<times> string \<times> string \<Rightarrow> py_error + color" where
  "rgb_try m =
     (case m of (g1, g2, g3) \<Rightarrow>
        and_then (dec_channel g1) (\<lambda>r.
        and_then (dec_channel g2) (\<lambda>g.
        and_then (dec_channel g3) (\<lambda>b.
        Inr (r, g, b, Finite 1)))))"

definition rgba_try :: "string \<times> string \<times> string \<times> string \<Rightarrow> py_error + color" where
  "rgba_try m =
     (case m of (g1, g2, g3, g4) \<Rightarrow>
        and_then (dec_channel g1) (\<lambda>r.
        and_then (dec_channel g2) (\<lambda>g.
        and_then (dec_channel g3) (\<lambda>b.
        and_then (py_float g4) (\<lambda>a.
        Inr (r, g, b, a))))))"

text \<open>
  \<^verbatim>\<open>_parse_color\<close>, in three parts that follow the text of the method. Each
  \<open>except ValueError: pass\<close> goes on to the next part; any other exception leaves the
  method.
\<close>

definition parse_color_rgba :: "string \<Rightarrow> py_error + color" where
  "parse_color_rgba color_str =
     (case rgba_match color_str of
        None \<Rightarrow> Inr default_color
      | Some m \<Rightarrow>
          (case rgba_try m of
             Inr c \<Rightarrow> Inr c
           | Inl ValueError \<Rightarrow> Inr default_color
           | Inl e \<Rightarrow> Inl e))"

definition parse_color_rgb :: "string \<Rightarrow> py_error + color" where
  "parse_color_rgb color_str =
     (case rgb_match color_str of
        None \<Rightarrow> parse_color_rgba color_str
      | Some m \<Rightarrow>
          (case rgb_try m of
             Inr c \<Rightarrow> Inr c
           | Inl ValueError \<Rightarrow> parse_color_rgba color_str
           | Inl e \<Rightarrow> Inl e))"

definition parse_color :: "string \<Rightarrow> py_error + color" where
  "parse_color color_str =
     (if color_str = [] \<or> py_lower color_str = ''none'' then
        Inr (Finite 0, Finite 0, Finite 0, Finite 0)
      else
        (case map_of color_map (py_lower color_str) of
           Some c \<Rightarrow> Inr c
         | None \<Rightarrow>
             if startswith color_str ''#'' then
               (case hex_try color_str of
                  Inr (Some c) \<Rightarrow> Inr c
                | Inr None \<Rightarrow> parse_color_rgb color_str
                | Inl ValueError \<Rightarrow> parse_color_rgb color_str
                | Inl e \<Rightarrow> Inl e)
             else parse_color_rgb color_str))"

text \<open>
  What the specification calls a NormalizedColor: four finite values in \<open>[0, 1]\<close>.
\<close>

definition in_unit :: "py_float \<Rightarrow> bool" where
  "in_unit x = (case x of Finite q \<Rightarrow> 0 \<le> q \<and> q \<le> 1 | _ \<Rightarrow> False)"

definition normalized :: "color \<Rightarrow> bool" where
  "normalized c = (case c of (r, g, b, a) \<Rightarrow> in_unit r \<and> in_unit g \<and> in_unit b \<and> in_unit a)"

text \<open>
  The hexadecimal form in the words of the specification: a leading \<open>#\<close> and then
  3, 6 or 8 hexadecimal digits. Every other string with a leading \<open>#\<close> is malformed hex.
\<close>

definition is_hex_digit :: "char \<Rightarrow> bool" where
  "is_hex_digit c =
     (let n = code_point c
      in (48 \<le> n \<and> n \<le> 57) \<or> (97 \<le> n \<and> n \<le> 102) \<or> (65 \<le> n \<and> n \<le> 70))"

definition hex_form :: "string \<Rightarrow> bool" where
  "hex_form s =
     (case s of
        [] \<Rightarrow> False
      | c # h \<Rightarrow> c = CHR ''#'' \<and> (length h = 3 \<or> length h = 6 \<or> length h = 8) \<and>
                 list_all is_hex_digit h)"

subsection \<open>The path geometry translator\<close>

text \<open>
  \<^verbatim>\<open>
  def _parse_svg_path(self, d_string):
      try:
          return [
              [0, 0, 0],            # closed state, vertex type, vertex index
              [1, 2, 0, 0, 0, 0]    # pos x, pos y, in x, in y, out x, out y
          ]
      except Exception as e:
          if self.verbose: print(...)
          return []
  \<close>
  The body of the \<open>try\<close> is a list display of integer literals, which cannot raise.
\<close>

definition parse_svg_path_try :: "string \<Rightarrow> py_error + int list list" where
  "parse_svg_path_try d_string = Inr [[0, 0, 0], [1, 2, 0, 0, 0, 0]]"

definition parse_svg_path :: "string \<Rightarrow> int list list" where
  "parse_svg_path d_string =
     (case parse_svg_path_try d_string of Inr v \<Rightarrow> v | Inl e \<Rightarrow> [])"

text \<open>
  Reading the returned rows the way the comments of the source label them: the first row
  is a header whose first entry is the closed state, every later row is one vertex with
  its position, its incoming tangent and its outgoing tangent.
\<close>

record vertex =
  pos :: "int \<times> int"
  tan_in :: "int \<times> int"
  tan_out :: "int \<times> int"

fun vertex_of_row :: "int list \<Rightarrow> vertex option" where
  "vertex_of_row [x, y, ix, iy, ox, oy] =
     Some \<lparr>pos = (x, y), tan_in = (ix, iy), tan_out = (ox, oy)\<rparr>"
| "vertex_of_row r = None"

fun path_closed :: "int list list \<Rightarrow> bool" where
  "path_closed ((c # hs) # rows) = (c \<noteq> 0)"
| "path_closed p = False"

fun path_vertices :: "int list list \<Rightarrow> vertex option list" where
  "path_vertices [] = []"
| "path_vertices (h # rows) = map vertex_of_row rows"

text \<open>The vertex path that the specification expects for a closed triangle.\<close>

definition closed_polyline :: "(int \<times> int) list \<Rightarrow> int list list \<Rightarrow> bool" where
  "closed_polyline ps p \<longleftrightarrow>
     path_closed p \<and>
     path_vertices p = map (\<lambda>q. Some \<lparr>pos = q, tan_in = (0, 0), tan_out = (0, 0)\<rparr>) ps"

subsection \<open>The document tree and the scene loader\<close>

text \<open>
  A node of the tree that \<open>minidom\<close> builds: an element with its tag name, its attributes
  and its child nodes, or a node of another type (text, comment, ...). \<open>getAttribute\<close>
  returns the empty string for an attribute that is absent.
\<close>

datatype node = Element string "(string \<times> string) list" "node list" | Other

definition getAttribute :: "(string \<times> string) list \<Rightarrow> string \<Rightarrow> string" where
  "getAttribute attrs n = (case map_of attrs n of Some v \<Rightarrow> v | None \<Rightarrow> [])"

text \<open>\<open>a or b\<close> on strings: the empty string is false.\<close>

definition str_or :: "string \<Rightarrow> string \<Rightarrow> string" where
  "str_or a b = (if a = [] then b else a)"

text \<open>\<open>str(n)\<close> for a natural number \<open>n\<close>.\<close>

fun str_nat :: "nat \<Rightarrow> string" where
  "str_nat n =
     (if n < 10 then [char_of (48 + n)] else str_nat (n div 10) @ [char_of (48 + n mod 10)])"

declare str_nat.simps [simp del]

text \<open>
  The dictionaries that the parser saves for an element, by their \<open>type\<close> entry:
  \<open>circle\<close> (cx, cy, r, fill), \<open>rect\<close> (x, y, width, height, fill),
  \<open>path\<close> (d, fill), and \<open>polygon\<close> or \<open>polyline\<close> (type, points, fill).
\<close>

datatype element =
    CircleEl py_float py_float py_float string
  | RectEl py_float py_float py_float py_float string
  | PathEl string string
  | PolyEl string string string

fun elem_type :: "element \<Rightarrow> string" where
  "elem_type (CircleEl cx cy r f) = ''circle''"
| "elem_type (RectEl x y w h f) = ''rect''"
| "elem_type (PathEl d f) = ''path''"
| "elem_type (PolyEl t p f) = t"

fun elem_fill :: "element \<Rightarrow> string" where
  "elem_fill (CircleEl cx cy r f) = f"
| "elem_fill (RectEl x y w h f) = f"
| "elem_fill (PathEl d f) = f"
| "elem_fill (PolyEl t p f) = f"

text \<open>
  What the program reports: the messages of a result, and the lines it prints about a
  failure. The texts of the source are given by constructors.
\<close>

datatype report =
    InputMissing string
  | CannotLoad string
  | PreviewCreated string
  | ConversionFailed
  | AnalysisError
  | SaveNodeError string py_error
  | SizeError
  | AddPathError py_error
  | AddShapeError py_error
  | ExportError

record element_groups =
  groups :: "string list"
  paths :: "string list"
  shapes :: "string list"
  original_elements :: "(string \<times> element list) list"

text \<open>
  The state of an \<^verbatim>\<open>SVGParser\<close>. The model follows the \<open>minidom\<close> route, which the
  parser takes when the library \<open>svgelements\<close> is not installed or fails on the file;
  \<open>self.svg\<close> is \<open>None\<close> then. \<open>console\<close> holds the failure reports printed so far.
\<close>

record svg_parser =
  verbose :: bool
  svg_doc :: "node option"
  element_groups :: element_groups
  structure_map :: "(string \<times> string \<times> string option) list"
  console :: "report list"

definition empty_groups :: element_groups where
  "empty_groups = \<lparr>groups = [], paths = [], shapes = [], original_elements = []\<rparr>"

text \<open>\<^verbatim>\<open>SVGParser.__init__\<close>.\<close>

definition new_parser :: "bool \<Rightarrow> svg_parser" where
  "new_parser v =
     \<lparr>verbose = v, svg_doc = None, element_groups = empty_groups, structure_map = [],
      console = []\<rparr>"

definition log_report :: "report \<Rightarrow> svg_parser \<Rightarrow> svg_parser" where
  "log_report r p = (if verbose p then p\<lparr>console := console p @ [r]\<rparr> else p)"

text \<open>
  \<^verbatim>\<open>load_svg\<close>: the argument is what \<open>minidom.parse\<close> makes of the file, \<open>None\<close> when it
  raises. The method resets \<open>svg\<close> and \<open>svg_doc\<close> and nothing else.
\<close>

definition load_svg :: "node option \<Rightarrow> svg_parser \<Rightarrow> bool \<times> svg_parser" where
  "load_svg parsed p =
     (case parsed of
        Some doc \<Rightarrow> (True, p\<lparr>svg_doc := Some doc\<rparr>)
      | None \<Rightarrow> (False, p\<lparr>svg_doc := None\<rparr>))"

text \<open>\<open>float(node.getAttribute(n) or dflt)\<close>.\<close>

definition attr_float :: "(string \<times> string) list \<Rightarrow> string \<Rightarrow> rat \<Rightarrow> py_error + py_float" where
  "attr_float attrs n dflt =
     (if getAttribute attrs n = [] then Inr (Finite dflt) else py_float (getAttribute attrs n))"

text \<open>
  The dictionary for an element that is not a group, as both \<^verbatim>\<open>_save_node_content\<close> and
  \<^verbatim>\<open>_extract_node_elements\<close> build it; \<open>Inr None\<close> for a tag that has none.
\<close>

definition node_element :: "string \<Rightarrow> (string \<times> string) list \<Rightarrow> py_error + element option" where
  "node_element tag attrs =
     (if tag = ''circle'' then
        and_then (attr_float attrs ''cx'' 0) (\<lambda>cx.
        and_then (attr_float attrs ''cy'' 0) (\<lambda>cy.
        and_then (attr_float attrs ''r'' 5) (\<lambda>r.
        Inr (Some (CircleEl cx cy r (str_or (getAttribute attrs ''fill'') ''black''))))))
      else if tag = ''rect'' then
        and_then (attr_float attrs ''x'' 0) (\<lambda>x.
        and_then (attr_float attrs ''y'' 0) (\<lambda>y.
        and_then (attr_float attrs ''width'' 10) (\<lambda>w.
        and_then (attr_float attrs ''height'' 10) (\<lambda>h.
        Inr (Some (RectEl x y w h (str_or (getAttribute attrs ''fill'') ''black'')))))))
      else if tag = ''path'' then
        Inr (Some (PathEl (str_or (getAttribute attrs ''d'') ''M0,0'')
                          (str_or (getAttribute attrs ''fill'') ''none'')))
      else if tag = ''polygon'' \<or> tag = ''polyline'' then
        Inr (Some (PolyEl tag (getAttribute attrs ''points'')
                          (str_or (getAttribute attrs ''fill'') ''none'')))
      else Inr None)"

text \<open>
  \<^verbatim>\<open>_extract_node_elements\<close>: an exception inside is swallowed (\<open>except: pass\<close>) and the
  elements gathered so far, none for a single element, are returned.
\<close>

fun extract_node_elements :: "node \<Rightarrow> element list" where
  "extract_node_elements Other = []"
| "extract_node_elements (Element tag attrs kids) =
     (if tag = ''g'' then concat (map extract_node_elements kids)
      else (case node_element tag attrs of
              Inr (Some e) \<Rightarrow> [e]
            | Inr None \<Rightarrow> []
            | Inl err \<Rightarrow> []))"

text \<open>
  \<^verbatim>\<open>_save_node_content\<close>: the body of its \<open>try\<close> gives the list \<open>elements\<close>; a non-empty
  list is stored under the identifier, an exception is reported.
\<close>

definition node_elements_try :: "string \<Rightarrow> (string \<times> string) list \<Rightarrow> node list \<Rightarrow> py_error + element list" where
  "node_elements_try tag attrs kids =
     (if tag = ''g'' then Inr (concat (map extract_node_elements kids))
      else (case node_element tag attrs of
              Inr (Some e) \<Rightarrow> Inr [e]
            | Inr None \<Rightarrow> Inr []
            | Inl err \<Rightarrow> Inl err))"

definition set_original :: "string \<Rightarrow> element list \<Rightarrow> element_groups \<Rightarrow> element_groups" where
  "set_original k v eg = eg\<lparr>original_elements := AList.update k v (original_elements eg)\<rparr>"

definition save_node_content :: "string \<Rightarrow> string \<Rightarrow> (string \<times> string) list \<Rightarrow> node list \<Rightarrow> svg_parser \<Rightarrow> svg_parser" where
  "save_node_content element_id tag attrs kids p =
     (case node_elements_try tag attrs kids of
        Inr elements \<Rightarrow>
          if elements = [] then p
          else p\<lparr>element_groups := set_original element_id elements (element_groups p)\<rparr>
      | Inl err \<Rightarrow> log_report (SaveNodeError element_id err) p)"

definition classify :: "string \<Rightarrow> string \<Rightarrow> element_groups \<Rightarrow> element_groups" where
  "classify tag element_id eg =
     (if tag = ''g'' then eg\<lparr>groups := groups eg @ [element_id]\<rparr>
      else if tag = ''path'' then eg\<lparr>paths := paths eg @ [element_id]\<rparr>
      else if tag \<in> set [''circle'', ''rect'', ''ellipse'', ''polygon'', ''polyline'']
      then eg\<lparr>shapes := shapes eg @ [element_id]\<rparr>
      else eg)"

text \<open>
  The identifier of an element: its \<open>id\<close> attribute, or \<open>element_<n>\<close> with \<open>n\<close> the
  number of entries of \<open>structure_map\<close>.
\<close>

definition element_id_of :: "(string \<times> string) list \<Rightarrow> svg_parser \<Rightarrow> string" where
  "element_id_of attrs p =
     str_or (getAttribute attrs ''id'') (''element_'' @ str_nat (length (structure_map p)))"

text \<open>
  \<^verbatim>\<open>process_node\<close>, the function inside \<^verbatim>\<open>_analyze_with_minidom\<close>. The depth of the tree
  is taken to be below the recursion limit of the interpreter.
\<close>

fun process_node :: "node \<Rightarrow> string option \<Rightarrow> svg_parser \<Rightarrow> svg_parser" where
  "process_node Other parent_id p = p"
| "process_node (Element tag attrs kids) parent_id p =
     (let element_id = element_id_of attrs p;
          p1 = p\<lparr>structure_map := AList.update element_id (tag, parent_id) (structure_map p)\<rparr>;
          p2 = save_node_content element_id tag attrs kids p1;
          p3 = p2\<lparr>element_groups := classify tag element_id (element_groups p2)\<rparr>
      in fold (\<lambda>child. process_node child (Some element_id)) kids p3)"

text \<open>
  \<^verbatim>\<open>_analyze_with_minidom\<close>: without a document, \<open>self.svg_doc.documentElement\<close> raises
  and the \<open>except\<close> reports it.
\<close>

definition analyze_with_minidom :: "svg_parser \<Rightarrow> svg_parser" where
  "analyze_with_minidom p =
     (case svg_doc p of
        Some doc \<Rightarrow> process_node doc None p
      | None \<Rightarrow> log_report AnalysisError p)"

text \<open>
  \<^verbatim>\<open>analyze_structure\<close>: \<open>element_groups\<close> is reset, \<open>structure_map\<close> is not. The result
  is the flatness of the document.
\<close>

definition analyze_structure :: "svg_parser \<Rightarrow> bool \<times> svg_parser" where
  "analyze_structure p =
     (let p' = analyze_with_minidom (p\<lparr>element_groups := empty_groups\<rparr>)
      in (length (groups (element_groups p')) < 3 \<and> length (paths (element_groups p')) > 20, p'))"

definition get_element_groups :: "svg_parser \<Rightarrow> element_groups" where
  "get_element_groups p = element_groups p"

definition get_element_by_id :: "svg_parser \<Rightarrow> string \<Rightarrow> element list option" where
  "get_element_by_id p element_id = map_of (original_elements (element_groups p)) element_id"

text \<open>
  \<^verbatim>\<open>get_svg_size\<close>. The substitution \<^verbatim>\<open>re.sub(r'[^0-9.]', '', w)\<close> keeps the digits and
  the dots. The body of the \<open>try\<close> raises when there is no document or when \<open>float\<close>
  raises; the \<open>except\<close> reports it and returns the default size.
\<close>

definition strip_units :: "string \<Rightarrow> string" where
  "strip_units w = filter (\<lambda>c. is_digit c \<or> c = CHR ''.'') w"

definition get_svg_size_try :: "svg_parser \<Rightarrow> (py_error + py_float \<times> py_float) option" where
  "get_svg_size_try p =
     (case svg_doc p of
        None \<Rightarrow> None
      | Some Other \<Rightarrow> None
      | Some (Element tag attrs kids) \<Rightarrow>
          Some (and_then (py_float (strip_units (str_or (getAttribute attrs ''width'') ''800''))) (\<lambda>w.
                and_then (py_float (strip_units (str_or (getAttribute attrs ''height'') ''600''))) (\<lambda>h.
                Inr (w, h)))))"

definition get_svg_size :: "svg_parser \<Rightarrow> (py_float \<times> py_float) \<times> svg_parser" where
  "get_svg_size p =
     (case get_svg_size_try p of
        Some (Inr wh) \<Rightarrow> (wh, p)
      | Some (Inl err) \<Rightarrow> ((Finite 800, Finite 600), log_report SizeError p)
      | None \<Rightarrow> ((Finite 800, Finite 600), log_report SizeError p))"

subsection \<open>The animation objects\<close>

text \<open>
  The objects of the library \<open>lottie\<close> that the converter builds, as values: a shape layer
  is its name and the groups added to it, in the order of \<open>add_shape\<close>; a group is the
  shapes added to it; an animation holds its layers in the order of \<open>add_layer\<close>. The
  library is not part of the package: it is taken to be installed (the converter returns
  \<open>None\<close> at once when it is not), and its constructors and setters are taken not to
  raise.
\<close>

datatype shape =
    RectShape "py_float \<times> py_float" "py_float \<times> py_float"
  | EllipseShape "py_float \<times> py_float" "py_float \<times> py_float"
  | PathShape "int list list"
  | FillShape color

type_synonym shape_group = "shape list"

record layer =
  layer_name :: string
  layer_shapes :: "shape_group list"

record animation =
  an_name :: string
  n_frames :: int
  framerate :: int
  width :: py_float
  height :: py_float
  layers :: "layer list"

text \<open>Float arithmetic of the geometry: \<open>a + b\<close>, \<open>a / 2\<close> and \<open>a * 2\<close>.\<close>

fun fadd :: "py_float \<Rightarrow> py_float \<Rightarrow> py_float" where
  "fadd (Finite a) (Finite b) = Finite (a + b)"
| "fadd NaN y = NaN"
| "fadd x NaN = NaN"
| "fadd PosInf NegInf = NaN"
| "fadd NegInf PosInf = NaN"
| "fadd PosInf y = PosInf"
| "fadd NegInf y = NegInf"
| "fadd (Finite a) y = y"

fun fhalf :: "py_float \<Rightarrow> py_float" where
  "fhalf (Finite a) = Finite (a / 2)"
| "fhalf x = x"

fun fdouble :: "py_float \<Rightarrow> py_float" where
  "fdouble (Finite a) = Finite (a * 2)"
| "fdouble x = x"

subsection \<open>The animation assembler\<close>

text \<open>
  The configuration after \<open>default_config.copy()\<close> and \<open>config.update(animation_config)\<close>.
  \<open>animation_config\<close> gives a value for the entries it has.
\<close>

record config =
  cfg_n_frames :: int
  cfg_framerate :: int
  cfg_width :: py_float
  cfg_height :: py_float
  background_color :: string

record animation_config =
  opt_n_frames :: "int option"
  opt_framerate :: "int option"
  opt_width :: "py_float option"
  opt_height :: "py_float option"
  opt_background_color :: "string option"

definition default_config :: config where
  "default_config =
     \<lparr>cfg_n_frames = 90, cfg_framerate = 30, cfg_width = Finite 800, cfg_height = Finite 600,
      background_color = ''#ffffff''\<rparr>"

definition no_config :: animation_config where
  "no_config =
     \<lparr>opt_n_frames = None, opt_framerate = None, opt_width = None, opt_height = None,
      opt_background_color = None\<rparr>"

definition merge_config :: "animation_config \<Rightarrow> config" where
  "merge_config ac =
     \<lparr>cfg_n_frames = (case opt_n_frames ac of Some v \<Rightarrow> v | None \<Rightarrow> cfg_n_frames default_config),
      cfg_framerate = (case opt_framerate ac of Some v \<Rightarrow> v | None \<Rightarrow> cfg_framerate default_config),
      cfg_width = (case opt_width ac of Some v \<Rightarrow> v | None \<Rightarrow> cfg_width default_config),
      cfg_height = (case opt_height ac of Some v \<Rightarrow> v | None \<Rightarrow> cfg_height default_config),
      background_color =
        (case opt_background_color ac of Some v \<Rightarrow> v | None \<Rightarrow> background_color default_config)\<rparr>"

text \<open>
  \<^verbatim>\<open>_add_path_to_layer\<close>. A dictionary without \<open>d\<close> leaves the layer as it is. The
  \<open>try\<close> builds the group of the path and its fill; \<open>except Exception\<close> prints the
  exception when the converter is verbose, and the layer stays as it is. The second
  component of the result is what has been printed.
\<close>

definition path_group_try :: "string \<Rightarrow> string \<Rightarrow> py_error + shape_group" where
  "path_group_try d fill =
     and_then (parse_color fill) (\<lambda>fill_color.
     Inr [PathShape (parse_svg_path d), FillShape fill_color])"

definition add_shape :: "shape_group \<Rightarrow> layer \<Rightarrow> layer" where
  "add_shape g l = l\<lparr>layer_shapes := layer_shapes l @ [g]\<rparr>"

definition add_path_to_layer :: "bool \<Rightarrow> element \<Rightarrow> layer \<times> report list \<Rightarrow> layer \<times> report list" where
  "add_path_to_layer v path_data st =
     (case path_data of
        PathEl d fill \<Rightarrow>
          (case path_group_try d fill of
             Inr g \<Rightarrow> (add_shape g (fst st), snd st)
           | Inl e \<Rightarrow> (fst st, if v then snd st @ [AddPathError e] else snd st))
      | _ \<Rightarrow> st)"

text \<open>
  \<^verbatim>\<open>_add_shape_to_layer\<close>: a rectangle or an ellipse for \<open>rect\<close> and \<open>circle\<close>, nothing for
  another type, and then the fill. The values of the dictionary are floats already, so
  \<open>float\<close> returns them.
\<close>

definition shape_geometry :: "element \<Rightarrow> shape list" where
  "shape_geometry shape_data =
     (case shape_data of
        RectEl x y w h f \<Rightarrow> [RectShape (fadd x (fhalf w), fadd y (fhalf h)) (w, h)]
      | CircleEl cx cy r f \<Rightarrow> [EllipseShape (cx, cy) (fdouble r, fdouble r)]
      | _ \<Rightarrow> [])"

definition shape_group_try :: "element \<Rightarrow> py_error + shape_group" where
  "shape_group_try shape_data =
     and_then (parse_color (elem_fill shape_data)) (\<lambda>fill_color.
     Inr (shape_geometry shape_data @ [FillShape fill_color]))"

definition add_shape_to_layer :: "bool \<Rightarrow> element \<Rightarrow> layer \<times> report list \<Rightarrow> layer \<times> report list" where
  "add_shape_to_layer v shape_data st =
     (case shape_group_try shape_data of
        Inr g \<Rightarrow> (add_shape g (fst st), snd st)
      | Inl e \<Rightarrow> (fst st, if v then snd st @ [AddShapeError e] else snd st))"

text \<open>
  \<^verbatim>\<open>_process_element_groups\<close>. The main layer: for every identifier of \<open>paths\<close> whose
  saved list is there, its first dictionary as a path; then the same for \<open>shapes\<close>.
\<close>

definition main_path_step :: "bool \<Rightarrow> svg_parser \<Rightarrow> string \<Rightarrow> layer \<times> report list \<Rightarrow> layer \<times> report list" where
  "main_path_step v p path_id st =
     (case get_element_by_id p path_id of
        Some (e # es) \<Rightarrow> add_path_to_layer v e st
      | _ \<Rightarrow> st)"

definition main_shape_step :: "bool \<Rightarrow> svg_parser \<Rightarrow> string \<Rightarrow> layer \<times> report list \<Rightarrow> layer \<times> report list" where
  "main_shape_step v p shape_id st =
     (case get_element_by_id p shape_id of
        Some (e # es) \<Rightarrow> add_shape_to_layer v e st
      | _ \<Rightarrow> st)"

definition main_layer :: "bool \<Rightarrow> svg_parser \<Rightarrow> element_groups \<Rightarrow> report list \<Rightarrow> layer \<times> report list" where
  "main_layer v p eg out =
     fold (main_shape_step v p) (shapes eg)
       (fold (main_path_step v p) (paths eg)
          (\<lparr>layer_name = ''Main Elements'', layer_shapes = []\<rparr>, out))"

text \<open>The loop over the dictionaries of one group.\<close>

definition group_element_step :: "bool \<Rightarrow> element \<Rightarrow> layer \<times> report list \<Rightarrow> layer \<times> report list" where
  "group_element_step v e st =
     (if elem_type e = ''path'' then add_path_to_layer v e st
      else if elem_type e \<in> set [''rect'', ''circle'', ''polygon'', ''polyline'']
      then add_shape_to_layer v e st
      else st)"

text \<open>
  The loop \<^verbatim>\<open>for i, group_id in enumerate(element_groups['groups'])\<close>: the arguments are the
  index \<open>i\<close>, the identifiers left, and the layers added and lines printed so far.
\<close>

fun group_layers :: "bool \<Rightarrow> svg_parser \<Rightarrow> nat \<Rightarrow> string list \<Rightarrow> layer list \<times> report list \<Rightarrow> layer list \<times> report list" where
  "group_layers v p i [] st = st"
| "group_layers v p i (group_id # ids) st =
     (case get_element_by_id p group_id of
        Some (e # es) \<Rightarrow>
          (let r = fold (group_element_step v) (e # es)
                     (\<lparr>layer_name = ''Group '' @ str_nat (i + 1), layer_shapes = []\<rparr>, snd st)
           in group_layers v p (i + 1) ids (fst st @ [fst r], snd r))
      | _ \<Rightarrow> group_layers v p (i + 1) ids st)"

definition process_element_groups :: "bool \<Rightarrow> svg_parser \<Rightarrow> element_groups \<Rightarrow> animation \<times> report list \<Rightarrow> animation \<times> report list" where
  "process_element_groups v p eg st =
     (let m = main_layer v p eg (snd st);
          r = group_layers v p 0 (groups eg) (layers (fst st) @ [fst m], snd m)
      in ((fst st)\<lparr>layers := fst r\<rparr>, snd r))"

text \<open>
  The background layer of \<^verbatim>\<open>convert_svg_to_lottie\<close>. The color is read as six hexadecimal
  digits, outside any \<open>try\<close>:
  \<^verbatim>\<open>
  color = config["background_color"].lstrip('#')
  rgb = tuple(int(color[i:i+2], 16)/255 for i in (0, 2, 4))
  \<close>
\<close>

definition background_rgb :: "string \<Rightarrow> py_error + color" where
  "background_rgb bg =
     (let color = lstrip_char (CHR ''#'') bg
      in and_then (hex_channel (take 2 color)) (\<lambda>r.
         and_then (hex_channel (take 2 (drop 2 color))) (\<lambda>g.
         and_then (hex_channel (take 2 (drop 4 color))) (\<lambda>b.
         Inr (r, g, b, Finite 1)))))"

definition background_layer :: "config \<Rightarrow> py_error + layer" where
  "background_layer cfg =
     (if background_color cfg \<noteq> [] then
        and_then (background_rgb (background_color cfg)) (\<lambda>c.
        Inr \<lparr>layer_name = ''Background'',
             layer_shapes =
               [[RectShape (fhalf (cfg_width cfg), fhalf (cfg_height cfg))
                           (cfg_width cfg, cfg_height cfg),
                 FillShape c]]\<rparr>)
      else Inr \<lparr>layer_name = ''Background'', layer_shapes = []\<rparr>)"

text \<open>
  What the model takes from outside the package about one call: whether the input file
  exists, what \<open>minidom.parse\<close> makes of it (\<open>None\<close> when it raises), \<open>Path(svg_path).stem\<close>,
  whether \<open>export_lottie\<close> returns, and the path of the preview when it can be written.
\<close>

record world =
  file_exists :: bool
  parsed :: "node option"
  stem :: string
  export_ok :: bool
  html_path :: "string option"

text \<open>
  \<^verbatim>\<open>convert_svg_to_lottie\<close> up to the export: the animation that is assembled, with the
  state of the converter's parser and the lines that the converter has printed about
  failures. \<open>Inr None\<close> is \<open>return None\<close>
  (the file cannot be loaded); \<open>Inl e\<close> is an exception that leaves the method.
\<close>

definition assemble :: "bool \<Rightarrow> world \<Rightarrow> animation_config \<Rightarrow> svg_parser \<Rightarrow> py_error + (animation \<times> svg_parser \<times> report list) option" where
  "assemble v w ac p =
     (let cfg = merge_config ac;
          (ok, p1) = load_svg (parsed w) p
      in if \<not> ok then Inr None
         else
           (let (flat, p2) = analyze_structure p1;
                (wh, p3) = get_svg_size p2;
                an = \<lparr>an_name = stem w, n_frames = cfg_n_frames cfg, framerate = cfg_framerate cfg,
                      width = cfg_width cfg, height = cfg_height cfg, layers = []\<rparr>
            in and_then (background_layer cfg) (\<lambda>bg.
               (let r = process_element_groups v p3 (get_element_groups p3)
                          (an\<lparr>layers := [bg]\<rparr>, [])
                in Inr (Some (fst r, p3, snd r))))))"


subsection \<open>The animation builder\<close>



subsection \<open>Notions of the specification and sample inputs\<close>

text \<open>One run of the scene loader and the structure classifier on a parsed document.\<close>

definition load_and_analyze :: "node \<Rightarrow> svg_parser \<Rightarrow> svg_parser" where
  "load_and_analyze d p = snd (analyze_structure (snd (load_svg (Some d) p)))"

text \<open>The layers of the assembled animation, when there is one.\<close>

definition assembled_layers :: "bool \<Rightarrow> world \<Rightarrow> animation_config \<Rightarrow> svg_parser \<Rightarrow> layer list option" where
  "assembled_layers v w ac p =
     (case assemble v w ac p of Inr (Some (an, p', out)) \<Rightarrow> Some (layers an) | _ \<Rightarrow> None)"

text \<open>A layer list by the name and the number of shape groups of each layer.\<close>

definition layer_sizes :: "layer list \<Rightarrow> (string \<times> nat) list" where
  "layer_sizes ls = map (\<lambda>l. (layer_name l, length (layer_shapes l))) ls"

text \<open>The number of elements with a given tag in a tree, at any depth.\<close>

fun count_tag :: "string \<Rightarrow> node \<Rightarrow> nat" where
  "count_tag t Other = 0"
| "count_tag t (Element tag attrs kids) =
     (if tag = t then 1 else 0) + sum_list (map (count_tag t) kids)"



fun is_path_element :: "node \<Rightarrow> bool" where
  "is_path_element (Element tag attrs kids) = (tag = ''path'')"
| "is_path_element Other = False"

fun top_level_paths :: "node \<Rightarrow> nat" where
  "top_level_paths (Element tag attrs kids) = length (filter is_path_element kids)"
| "top_level_paths Other = 0"



text \<open>
  A call for which the file \<open>a.svg\<close> exists and is parsed to the given document, the export
  succeeds and the preview \<open>a.html\<close> is written.
\<close>

definition world_of :: "node \<Rightarrow> world" where
  "world_of d =
     \<lparr>file_exists = True, parsed = Some d, stem = ''a'', export_ok = True,
      html_path = Some ''a.html''\<rparr>"

definition with_background :: "string \<Rightarrow> animation_config" where
  "with_background bg = no_config\<lparr>opt_background_color := Some bg\<rparr>"

text \<open>\<^verbatim>\<open><svg><path d="M0,0"/></svg>\<close>\<close>

definition doc_one_path :: node where
  "doc_one_path = Element ''svg'' [] [Element ''path'' [(''d'', ''M0,0'')] []]"


text \<open>\<^verbatim>\<open><svg><path d="M0,0" fill="red"/><rect fill="blue"/></svg>\<close>\<close>

definition doc_path_rect :: node where
  "doc_path_rect =
     Element ''svg'' []
       [Element ''path'' [(''d'', ''M0,0''), (''fill'', ''red'')] [],
        Element ''rect'' [(''fill'', ''blue'')] []]"


text \<open>An identifier has content when a non-empty list of dictionaries is saved for it.\<close>

definition has_content :: "svg_parser \<Rightarrow> string \<Rightarrow> bool" where
  "has_content p i = (case get_element_by_id p i of Some (e # es) \<Rightarrow> True | _ \<Rightarrow> False)"

text \<open>
  The names \<open>Group k\<close> for the group identifiers that have content, \<open>k\<close> being the
  position of the identifier in the list, counted from \<open>i + 1\<close>.
\<close>

definition group_layer_names :: "svg_parser \<Rightarrow> nat \<Rightarrow> string list \<Rightarrow> string list" where
  "group_layer_names p i ids =
     map (\<lambda>(j, g). ''Group '' @ str_nat (j + 1)) (filter (\<lambda>(j, g). has_content p g) (enumerate i ids))"

text \<open>The number of shape elements in a tree, at any depth.\<close>

fun count_shapes :: "node \<Rightarrow> nat" where
  "count_shapes Other = 0"
| "count_shapes (Element tag attrs kids) =
     (if tag \<in> set [''circle'', ''rect'', ''ellipse'', ''polygon'', ''polyline''] then 1 else 0) +
     sum_list (map count_shapes kids)"

text \<open>The color resolver returns a color for the string, it does not raise.\<close>

definition resolves :: "string \<Rightarrow> bool" where
  "resolves f = (case parse_color f of Inr c \<Rightarrow> True | Inl e \<Rightarrow> False)"

text \<open>
  A child of the root in a document that holds paths only: a node that is no element, or
  a \<open>path\<close> element without child elements whose fill resolves.
\<close>

fun plain_path :: "node \<Rightarrow> bool" where
  "plain_path Other = True"
| "plain_path (Element tag attrs kids) =
     (tag = ''path'' \<and> list_all (\<lambda>k. k = Other) kids \<and>
      resolves (str_or (getAttribute attrs ''fill'') ''none''))"

text \<open>
  The state of a parser while it walks such a document: no groups, no shapes, and for
  every identifier of \<open>paths\<close> the dictionary of a path whose fill resolves.
\<close>

definition paths_resolve :: "svg_parser \<Rightarrow> bool" where
  "paths_resolve q \<longleftrightarrow>
     groups (element_groups q) = [] \<and> shapes (element_groups q) = [] \<and>
     (\<forall>i \<in> set (paths (element_groups q)).
        \<exists>d f. get_element_by_id q i = Some [PathEl d f] \<and> resolves f)"




text \<open>
  \<^verbatim>\<open><svg><path d="M0,0" fill="red"/> <path id="p"> </path></svg>\<close>, with the text nodes
  between and inside the elements.
\<close>

definition doc_two_paths :: node where
  "doc_two_paths =
     Element ''svg'' []
       [Element ''path'' [(''d'', ''M0,0''), (''fill'', ''red'')] [], Other,
        Element ''path'' [(''id'', ''p'')] [Other]]"



text \<open>The background layer for the default configuration.\<close>

definition white_background :: layer where
  "white_background =
     \<lparr>layer_name = ''Background'',
      layer_shapes =
        [[RectShape (Finite 400, Finite 300) (Finite 800, Finite 600),
          FillShape (Finite 1, Finite 1, Finite 1, Finite 1)]]\<rparr>"

text \<open>What the assembler makes of \<open>doc_one_path\<close> and of \<open>doc_nested\<close> by default.\<close>

definition one_path_parser :: svg_parser where
  "one_path_parser = snd (get_svg_size (load_and_analyze doc_one_path (new_parser False)))"

definition one_path_animation :: animation where
  "one_path_animation =
     \<lparr>an_name = ''a'', n_frames = 90, framerate = 30, width = Finite 800, height = Finite 600,
      layers =
        [white_background,
         \<lparr>layer_name = ''Main Elements'',
           layer_shapes =
             [[PathShape [[0, 0, 0], [1, 2, 0, 0, 0, 0]],
               FillShape (Finite 0, Finite 0, Finite 0, Finite 0)]]\<rparr>]\<rparr>"



section \<open>Properties of the path geometry translator\<close>

text \<open>
  Claim C10. For every input string \<open>d\<close> the translator returns, without raising, the
  same placeholder value \<open>[[0, 0, 0], [1, 2, 0, 0, 0, 0]]\<close>: its result is a constant
  that does not depend on the path data.
\<close>

theorem parse_svg_path_constant:
  "parse_svg_path d = [[0, 0, 0], [1, 2, 0, 0, 0, 0]]"
  by (simp add: parse_svg_path_def parse_svg_path_try_def)

text \<open>
  Claim C1, as stated: for the path data \<open>M0,0 L10,0 L10,10 Z\<close> the translator returns a
  closed path with exactly the three vertices (0,0), (10,0), (10,10) and zero tangents.
  The placeholder is neither closed nor a triangle, so the statement fails.
\<close>

theorem parse_svg_path_triangle_counterexample:
  "\<not> closed_polyline [(0, 0), (10, 0), (10, 10)]
       (parse_svg_path ''M0,0 L10,0 L10,10 Z'')"
  by (simp add: closed_polyline_def parse_svg_path_def parse_svg_path_try_def)

text \<open>
  Claim C1, amended: for the path data \<open>M0,0 L10,0 L10,10 Z\<close> the translator returns an
  open path (closed state 0) with exactly one vertex, at (1,2), whose incoming and
  outgoing tangent offsets are zero.
\<close>

theorem parse_svg_path_triangle_placeholder:
  "\<not> path_closed (parse_svg_path ''M0,0 L10,0 L10,10 Z'') \<and>
   path_vertices (parse_svg_path ''M0,0 L10,0 L10,10 Z'') =
     [Some \<lparr>pos = (1, 2), tan_in = (0, 0), tan_out = (0, 0)\<rparr>]"
  by (simp add: parse_svg_path_def parse_svg_path_try_def)

section \<open>Properties of the color resolver\<close>

text \<open>The resolutions that the specification lists as examples.\<close>

lemma parse_color_examples:
  "parse_color [] = Inr (Finite 0, Finite 0, Finite 0, Finite 0)"
  "parse_color ''NoNe'' = Inr (Finite 0, Finite 0, Finite 0, Finite 0)"
  "parse_color ''#F00'' = Inr (Finite 1, Finite 0, Finite 0, Finite 1)"
  "parse_color ''#ff0000'' = Inr (Finite 1, Finite 0, Finite 0, Finite 1)"
  "parse_color ''red'' = Inr (Finite 1, Finite 0, Finite 0, Finite 1)"
  "parse_color ''rgba(0,0,0,0.5)'' = Inr (Finite 0, Finite 0, Finite 0, Finite (1 / 2))"
  "parse_color ''rgba(0,0,0)'' = Inr default_color"
  "parse_color ''#ggg'' = Inr default_color"
  "parse_color ''#ffff'' = Inr default_color"
  by code_simp+

text \<open>
  Claim C2 says that every malformed hexadecimal string resolves to opaque black. The
  string \<open>#+f+f+f\<close> is not a hexadecimal form, but \<open>int('+f', 16)\<close> is 15: the method
  returns the gray \<open>(15/255, 15/255, 15/255, 1)\<close> and not the default color.
\<close>

theorem parse_color_signed_hex:
  "\<not> hex_form ''#+f+f+f'' \<and>
   parse_color ''#+f+f+f'' = Inr (Finite (1 / 17), Finite (1 / 17), Finite (1 / 17), Finite 1) \<and>
   parse_color ''#+f+f+f'' \<noteq> Inr default_color"
  by code_simp

text \<open>
  Claim C6 says that every result is a NormalizedColor, also for \<open>rgb()\<close> channels above
  255. On \<open>rgb(999,0,0)\<close> the method returns the red channel \<open>999/255\<close>, which is above 1.
\<close>

theorem parse_color_rgb_above_range:
  "parse_color ''rgb(999,0,0)'' = Inr (Finite (333 / 85), Finite 0, Finite 0, Finite 1) \<and>
   \<not> normalized (Finite (333 / 85), Finite 0, Finite 0, Finite 1)"
  by code_simp

section \<open>Properties of the scene loader\<close>

text \<open>
  Claim C5 says that two runs of load and analysis on one parser give the same synthetic
  identifiers. \<open>analyze_structure\<close> resets \<open>element_groups\<close> but not \<open>structure_map\<close>,
  whose size numbers the identifiers: on \<^verbatim>\<open><svg><path d="M0,0"/></svg>\<close> the path is
  \<open>element_1\<close> in the first run and \<open>element_3\<close> in the second run on the same parser.
\<close>

theorem synthetic_ids_second_run:
  "paths (element_groups (load_and_analyze doc_one_path (new_parser False))) = [''element_1''] \<and>
   paths (element_groups
       (load_and_analyze doc_one_path (load_and_analyze doc_one_path (new_parser False)))) =
     [''element_3'']"
  by code_simp

subsection \<open>The size of the document\<close>














lemma not_digit_dot: "\<not> is_digit (CHR ''.'')"
  by (simp add: is_digit_def code_point_def)






subsection \<open>The walk over the tree\<close>

lemma log_report_fields [simp]:
  "element_groups (log_report r p) = element_groups p"
  "structure_map (log_report r p) = structure_map p"
  "svg_doc (log_report r p) = svg_doc p"
  "verbose (log_report r p) = verbose p"
  by (simp_all add: log_report_def)

lemma set_original_fields [simp]:
  "paths (set_original k v eg) = paths eg"
  "groups (set_original k v eg) = groups eg"
  "shapes (set_original k v eg) = shapes eg"
  "original_elements (set_original k v eg) = AList.update k v (original_elements eg)"
  by (simp_all add: set_original_def)

lemma save_node_content_fields [simp]:
  "paths (element_groups (save_node_content i t a k p)) = paths (element_groups p)"
  "groups (element_groups (save_node_content i t a k p)) = groups (element_groups p)"
  "shapes (element_groups (save_node_content i t a k p)) = shapes (element_groups p)"
  "structure_map (save_node_content i t a k p) = structure_map p"
  "svg_doc (save_node_content i t a k p) = svg_doc p"
  "verbose (save_node_content i t a k p) = verbose p"
  by (simp_all add: save_node_content_def split: sum.splits)

lemma classify_paths:
  "paths (classify tag i eg) = (if tag = ''path'' then paths eg @ [i] else paths eg)"
  by (simp add: classify_def)

lemma classify_groups:
  "groups (classify tag i eg) = (if tag = ''g'' then groups eg @ [i] else groups eg)"
  by (simp add: classify_def)

lemma process_node_paths:
  "length (paths (element_groups (process_node n par p))) =
     length (paths (element_groups p)) + count_tag ''path'' n"
proof (induction n par p rule: process_node.induct)
  case (1 parent_id p)
  then show ?case by simp
next
  case (2 tag attrs kids parent_id p)
  define i where "i = element_id_of attrs p"
  define p3 where "p3 = (save_node_content i tag attrs kids
      (p\<lparr>structure_map := AList.update i (tag, parent_id) (structure_map p)\<rparr>))
      \<lparr>element_groups := classify tag i (element_groups (save_node_content i tag attrs kids
      (p\<lparr>structure_map := AList.update i (tag, parent_id) (structure_map p)\<rparr>)))\<rparr>"
  have IH: "\<And>k q. k \<in> set kids \<Longrightarrow>
      length (paths (element_groups (process_node k (Some i) q))) =
        length (paths (element_groups q)) + count_tag ''path'' k"
    using "2.IH" [OF i_def [symmetric, THEN sym] refl refl refl] by (simp add: i_def)
  have F: "\<And>q. length (paths (element_groups (fold (\<lambda>c. process_node c (Some i)) kids q))) =
      length (paths (element_groups q)) + sum_list (map (count_tag ''path'') kids)"
    using IH by (induction kids) auto
  show ?case
    by (simp add: Let_def F [unfolded i_def] classify_paths)
qed

lemma classify_shapes:
  "shapes (classify tag i eg) =
     (if tag \<in> set [''circle'', ''rect'', ''ellipse'', ''polygon'', ''polyline''] then shapes eg @ [i] else shapes eg)"
  by (simp add: classify_def)

lemma process_node_groups:
  "length (groups (element_groups (process_node n par p))) =
     length (groups (element_groups p)) + count_tag ''g'' n"
proof (induction n par p rule: process_node.induct)
  case (1 parent_id p)
  then show ?case by simp
next
  case (2 tag attrs kids parent_id p)
  define i where "i = element_id_of attrs p"
  have IH: "\<And>k q. k \<in> set kids \<Longrightarrow>
      length (groups (element_groups (process_node k (Some i) q))) =
        length (groups (element_groups q)) + count_tag ''g'' k"
    using "2.IH" [OF i_def [symmetric, THEN sym] refl refl refl] by (simp add: i_def)
  have F: "\<And>q. length (groups (element_groups (fold (\<lambda>c. process_node c (Some i)) kids q))) =
      length (groups (element_groups q)) + sum_list (map (count_tag ''g'') kids)"
    using IH by (induction kids) auto
  show ?case
    by (simp add: Let_def F [unfolded i_def] classify_groups)
qed

lemma process_node_shapes:
  "length (shapes (element_groups (process_node n par p))) =
     length (shapes (element_groups p)) + count_shapes n"
proof (induction n par p rule: process_node.induct)
  case (1 parent_id p)
  then show ?case by simp
next
  case (2 tag attrs kids parent_id p)
  define i where "i = element_id_of attrs p"
  have IH: "\<And>k q. k \<in> set kids \<Longrightarrow>
      length (shapes (element_groups (process_node k (Some i) q))) =
        length (shapes (element_groups q)) + count_shapes k"
    using "2.IH" [OF i_def [symmetric, THEN sym] refl refl refl] by (simp add: i_def)
  have F: "\<And>q. length (shapes (element_groups (fold (\<lambda>c. process_node c (Some i)) kids q))) =
      length (shapes (element_groups q)) + sum_list (map count_shapes kids)"
    using IH by (induction kids) auto
  show ?case
    by (simp add: Let_def F [unfolded i_def] classify_shapes del: set_simps)
qed

lemma analyze_counts:
  assumes "svg_doc p = Some doc"
  shows "length (paths (element_groups (snd (analyze_structure p)))) = count_tag ''path'' doc"
    and "length (groups (element_groups (snd (analyze_structure p)))) = count_tag ''g'' doc"
    and "length (shapes (element_groups (snd (analyze_structure p)))) = count_shapes doc"
  using assms
  by (simp_all add: analyze_structure_def analyze_with_minidom_def Let_def empty_groups_def
      process_node_paths process_node_groups process_node_shapes)

lemma get_svg_size_fields [simp]:
  "element_groups (snd (get_svg_size p)) = element_groups p"
  "structure_map (snd (get_svg_size p)) = structure_map p"
  "svg_doc (snd (get_svg_size p)) = svg_doc p"
  by (simp_all add: get_svg_size_def split: option.splits sum.splits)

lemma get_element_by_id_size [simp]:
  "get_element_by_id (snd (get_svg_size p)) = get_element_by_id p"
  by (rule ext) (simp add: get_element_by_id_def)

section \<open>Properties of the animation assembler\<close>

subsection \<open>The order and the names of the layers\<close>

lemma add_path_name [simp]: "layer_name (fst (add_path_to_layer v e st)) = layer_name (fst st)"
  by (simp add: add_path_to_layer_def add_shape_def split: element.splits sum.splits)

lemma add_shape_name [simp]: "layer_name (fst (add_shape_to_layer v e st)) = layer_name (fst st)"
  by (simp add: add_shape_to_layer_def add_shape_def split: sum.splits)

lemma add_path_size:
  "length (layer_shapes (fst (add_path_to_layer v e st))) \<le> Suc (length (layer_shapes (fst st)))"
  "length (layer_shapes (fst st)) \<le> length (layer_shapes (fst (add_path_to_layer v e st)))"
  by (simp_all add: add_path_to_layer_def add_shape_def split: element.splits sum.splits)

lemma add_shape_size:
  "length (layer_shapes (fst (add_shape_to_layer v e st))) \<le> Suc (length (layer_shapes (fst st)))"
  "length (layer_shapes (fst st)) \<le> length (layer_shapes (fst (add_shape_to_layer v e st)))"
  by (simp_all add: add_shape_to_layer_def add_shape_def split: sum.splits)

lemma group_element_step_name [simp]:
  "layer_name (fst (group_element_step v e st)) = layer_name (fst st)"
  by (simp add: group_element_step_def del: set_simps)

lemma fold_group_element_step_name [simp]:
  "layer_name (fst (fold (group_element_step v) es st)) = layer_name (fst st)"
  by (induction es arbitrary: st) simp_all

lemma main_path_step_name [simp]:
  "layer_name (fst (main_path_step v p i st)) = layer_name (fst st)"
  by (simp add: main_path_step_def split: option.splits list.splits)

lemma main_shape_step_name [simp]:
  "layer_name (fst (main_shape_step v p i st)) = layer_name (fst st)"
  by (simp add: main_shape_step_def split: option.splits list.splits)

lemma fold_main_path_step_name [simp]:
  "layer_name (fst (fold (main_path_step v p) ids st)) = layer_name (fst st)"
  by (induction ids arbitrary: st) simp_all

lemma fold_main_shape_step_name [simp]:
  "layer_name (fst (fold (main_shape_step v p) ids st)) = layer_name (fst st)"
  by (induction ids arbitrary: st) simp_all

lemma main_layer_name [simp]: "layer_name (fst (main_layer v p eg out)) = ''Main Elements''"
  by (simp add: main_layer_def)

lemma main_path_step_size:
  "length (layer_shapes (fst (main_path_step v p i st))) \<le> Suc (length (layer_shapes (fst st)))"
  using add_path_size(1) by (simp add: main_path_step_def split: option.splits list.splits)

lemma main_shape_step_size:
  "length (layer_shapes (fst (main_shape_step v p i st))) \<le> Suc (length (layer_shapes (fst st)))"
  using add_shape_size(1) by (simp add: main_shape_step_def split: option.splits list.splits)

lemma fold_main_path_step_size:
  "length (layer_shapes (fst (fold (main_path_step v p) ids st))) \<le>
     length (layer_shapes (fst st)) + length ids"
proof (induction ids arbitrary: st)
  case Nil
  then show ?case by simp
next
  case (Cons i ids)
  show ?case
    using Cons.IH [of "main_path_step v p i st"] main_path_step_size [of v p i st] by simp
qed

lemma fold_main_shape_step_size:
  "length (layer_shapes (fst (fold (main_shape_step v p) ids st))) \<le>
     length (layer_shapes (fst st)) + length ids"
proof (induction ids arbitrary: st)
  case Nil
  then show ?case by simp
next
  case (Cons i ids)
  show ?case
    using Cons.IH [of "main_shape_step v p i st"] main_shape_step_size [of v p i st] by simp
qed

lemma main_layer_size:
  "length (layer_shapes (fst (main_layer v p eg out))) \<le> length (paths eg) + length (shapes eg)"
  using fold_main_shape_step_size [of v p "shapes eg"
      "fold (main_path_step v p) (paths eg) (\<lparr>layer_name = ''Main Elements'', layer_shapes = []\<rparr>, out)"]
    fold_main_path_step_size [of v p "paths eg" "(\<lparr>layer_name = ''Main Elements'', layer_shapes = []\<rparr>, out)"]
  by (simp add: main_layer_def)

lemma group_layers_append:
  "\<exists>gs. fst (group_layers v p i ids st) = fst st @ gs \<and>
        map layer_name gs = group_layer_names p i ids"
proof (induction ids arbitrary: i st)
  case Nil
  then show ?case by (simp add: group_layer_names_def)
next
  case (Cons g ids)
  show ?case
  proof (cases "has_content p g")
    case True
    then obtain e es where E: "get_element_by_id p g = Some (e # es)"
      by (auto simp: has_content_def split: option.splits list.splits)
    define r where "r = fold (group_element_step v) (e # es)
        (\<lparr>layer_name = ''Group '' @ str_nat (i + 1), layer_shapes = []\<rparr>, snd st)"
    obtain gs where G: "fst (group_layers v p (i + 1) ids (fst st @ [fst r], snd r)) =
        (fst st @ [fst r]) @ gs" "map layer_name gs = group_layer_names p (i + 1) ids"
      using Cons.IH [of "i + 1" "(fst st @ [fst r], snd r)"] by auto
    have N: "layer_name (fst r) = ''Group '' @ str_nat (i + 1)"
      unfolding r_def by (simp only: fold_group_element_step_name fst_conv layer.simps)
    have "group_layers v p i (g # ids) st =
        group_layers v p (i + 1) ids (fst st @ [fst r], snd r)"
      using E by (simp add: r_def Let_def)
    then have "fst (group_layers v p i (g # ids) st) = fst st @ (fst r # gs)"
      using G(1) by simp
    moreover have "map layer_name (fst r # gs) = group_layer_names p i (g # ids)"
      using True G(2) N by (simp add: group_layer_names_def)
    ultimately show ?thesis by blast
  next
    case False
    then have E: "group_layers v p i (g # ids) st = group_layers v p (i + 1) ids st"
      by (auto simp: has_content_def split: option.splits list.splits)
    show ?thesis
      unfolding E using Cons.IH [of "i + 1" st] False
      by (simp add: group_layer_names_def del: group_layers.simps)
  qed
qed

lemma background_layer_name:
  "background_layer cfg = Inr bg \<Longrightarrow> layer_name bg = ''Background''"
  by (auto simp: background_layer_def and_then_def split: if_splits sum.splits)

lemma background_layer_shapes:
  "background_layer cfg = Inr bg \<Longrightarrow> (layer_shapes bg = []) = (background_color cfg = [])"
  by (auto simp: background_layer_def and_then_def split: if_splits sum.splits)

lemma assemble_cases:
  assumes "assemble v w ac p = Inr (Some (an, p', out))"
  obtains doc bg where "parsed w = Some doc"
    and "background_layer (merge_config ac) = Inr bg"
    and "p' = snd (get_svg_size (snd (analyze_structure (p\<lparr>svg_doc := Some doc\<rparr>))))"
    and "(an, out) = process_element_groups v p' (element_groups p')
           (\<lparr>an_name = stem w, n_frames = cfg_n_frames (merge_config ac),
              framerate = cfg_framerate (merge_config ac), width = cfg_width (merge_config ac),
              height = cfg_height (merge_config ac), layers = [bg]\<rparr>, [])"
  using assms
  by (auto simp: assemble_def load_svg_def Let_def and_then_def get_element_groups_def
      split: option.splits sum.splits prod.splits)

lemma process_element_groups_layers:
  "\<exists>m gs. layers (fst (process_element_groups v p eg (a, out))) = layers a @ m # gs \<and>
     layer_name m = ''Main Elements'' \<and>
     length (layer_shapes m) \<le> length (paths eg) + length (shapes eg) \<and>
     map layer_name gs = group_layer_names p 0 (groups eg)"
proof -
  define m where "m = main_layer v p eg out"
  obtain gs where G: "fst (group_layers v p 0 (groups eg) (layers a @ [fst m], snd m)) =
      (layers a @ [fst m]) @ gs" "map layer_name gs = group_layer_names p 0 (groups eg)"
    using group_layers_append [of v p 0 "groups eg" "(layers a @ [fst m], snd m)"] by auto
  have "layers (fst (process_element_groups v p eg (a, out))) = layers a @ fst m # gs"
    using G(1) by (simp add: process_element_groups_def Let_def m_def)
  moreover have "layer_name (fst m) = ''Main Elements''"
    by (simp add: m_def)
  moreover have "length (layer_shapes (fst m)) \<le> length (paths eg) + length (shapes eg)"
    unfolding m_def by (rule main_layer_size)
  ultimately show ?thesis using G(2) by blast
qed




text \<open>
  Claim C4, as stated: the background color \<open>none\<close> omits the background layer and the
  conversion still succeeds. With \<open>none\<close> the hexadecimal reading of the background
  raises ValueError and nothing is assembled; with the empty string the layer is there,
  without shapes.
\<close>

theorem background_none_counterexample:
  "assemble False (world_of doc_one_path) (with_background ''none'') (new_parser False) =
     Inl ValueError \<and>
   map_option layer_sizes
     (assembled_layers False (world_of doc_one_path) (with_background []) (new_parser False)) =
     Some [(''Background'', 0), (''Main Elements'', 1)]"
  by code_simp

text \<open>
  Claim C4, amended: whenever an animation is assembled, the background layer is present
  as its first layer, whatever the configured background color is; the layer holds the
  background rectangle and its fill exactly when the configured color is not the empty
  string. No background color omits the layer.
\<close>

theorem background_always:
  assumes "assemble v w ac p = Inr (Some (an, p', out))"
  shows "layers an \<noteq> [] \<and> layer_name (hd (layers an)) = ''Background'' \<and>
         (layer_shapes (hd (layers an)) = []) = (background_color (merge_config ac) = [])"
proof -
  obtain doc' bg where A: "parsed w = Some doc'"
    "background_layer (merge_config ac) = Inr bg"
    "p' = snd (get_svg_size (snd (analyze_structure (p\<lparr>svg_doc := Some doc'\<rparr>))))"
    "(an, out) = process_element_groups v p' (element_groups p')
           (\<lparr>an_name = stem w, n_frames = cfg_n_frames (merge_config ac),
              framerate = cfg_framerate (merge_config ac), width = cfg_width (merge_config ac),
              height = cfg_height (merge_config ac), layers = [bg]\<rparr>, [])"
    using assemble_cases [OF assms] by metis
  obtain m gs where L: "layers (fst (process_element_groups v p' (element_groups p')
           (\<lparr>an_name = stem w, n_frames = cfg_n_frames (merge_config ac),
              framerate = cfg_framerate (merge_config ac), width = cfg_width (merge_config ac),
              height = cfg_height (merge_config ac), layers = [bg]\<rparr>, []))) = [bg] @ m # gs"
    using process_element_groups_layers [of v p' "element_groups p'"
        "\<lparr>an_name = stem w, n_frames = cfg_n_frames (merge_config ac),
              framerate = cfg_framerate (merge_config ac), width = cfg_width (merge_config ac),
              height = cfg_height (merge_config ac), layers = [bg]\<rparr>" "[]"]
    by auto
  have "layers an = bg # m # gs"
    using L(1) A(4) [symmetric] by simp
  then show ?thesis
    using background_layer_name [OF A(2)] background_layer_shapes [OF A(2)] by simp
qed

text \<open>The theorem on the document with one path and the default configuration.\<close>

theorem background_always_witness:
  "assemble False (world_of doc_one_path) no_config (new_parser False) =
     Inr (Some (one_path_animation, one_path_parser, [])) \<and>
   layers one_path_animation \<noteq> [] \<and>
   layer_name (hd (layers one_path_animation)) = ''Background'' \<and>
   (layer_shapes (hd (layers one_path_animation)) = []) =
     (background_color (merge_config no_config) = [])"
proof -
  have h: "assemble False (world_of doc_one_path) no_config (new_parser False) =
      Inr (Some (one_path_animation, one_path_parser, []))"
    by code_simp
  show ?thesis
    using background_always [OF h] h by blast
qed

subsection \<open>Documents that hold paths only\<close>

lemma fold_other:
  "list_all (\<lambda>k. k = Other) ks \<Longrightarrow> fold (\<lambda>c. process_node c par) ks q = q"
  by (induction ks) simp_all

lemma process_plain_path:
  assumes "plain_path n" and "paths_resolve q"
  shows "paths_resolve (process_node n par q)"
proof (cases n)
  case Other
  then show ?thesis using assms by simp
next
  case (Element tag attrs kids)
  then have T: "tag = ''path''" and K: "list_all (\<lambda>k. k = Other) kids"
    using assms(1) by simp_all
  have C: "resolves (str_or (getAttribute attrs ''fill'') ''none'')"
    using assms(1) Element by simp
  define i where "i = element_id_of attrs q"
  define e where "e = PathEl (str_or (getAttribute attrs ''d'') ''M0,0'')
      (str_or (getAttribute attrs ''fill'') ''none'')"
  have S: "node_elements_try ''path'' attrs kids = Inr [e]"
    by (simp add: node_elements_try_def node_element_def e_def)
  have P: "process_node n par q =
      q\<lparr>structure_map := AList.update i (''path'', par) (structure_map q),
        element_groups := (set_original i [e] (element_groups q))
          \<lparr>paths := paths (element_groups q) @ [i]\<rparr>\<rparr>"
    by (simp add: Element T fold_other [OF K] Let_def i_def [symmetric]
        save_node_content_def S classify_def set_original_def)
  show ?thesis
    using assms(2) C
    by (auto simp: P paths_resolve_def get_element_by_id_def update_conv' e_def)
qed

lemma fold_plain_paths:
  "list_all plain_path kids \<Longrightarrow> paths_resolve q \<Longrightarrow>
     paths_resolve (fold (\<lambda>c. process_node c par) kids q)"
  by (induction kids arbitrary: q) (simp_all add: process_plain_path)

lemma count_other:
  "list_all (\<lambda>k. k = Other) ks \<Longrightarrow> sum_list (map (count_tag t) ks) = 0"
  by (induction ks) simp_all

lemma plain_count:
  "list_all plain_path kids \<Longrightarrow>
     sum_list (map (count_tag ''path'') kids) = length (filter is_path_element kids)"
proof (induction kids)
  case Nil
  then show ?case by simp
next
  case (Cons k kids)
  then show ?case
    by (cases k) (simp_all add: count_other)
qed

lemma main_path_step_resolved:
  assumes "get_element_by_id p i = Some [PathEl d f]" and "resolves f"
  shows "length (layer_shapes (fst (main_path_step v p i st))) = Suc (length (layer_shapes (fst st)))"
  using assms
  by (simp add: main_path_step_def add_path_to_layer_def path_group_try_def and_then_def
      add_shape_def resolves_def split: sum.splits)

lemma fold_main_path_step_resolved:
  "(\<forall>i \<in> set ids. \<exists>d f. get_element_by_id p i = Some [PathEl d f] \<and> resolves f) \<Longrightarrow>
   length (layer_shapes (fst (fold (main_path_step v p) ids st))) =
     length (layer_shapes (fst st)) + length ids"
proof (induction ids arbitrary: st)
  case Nil
  then show ?case by simp
next
  case (Cons i ids)
  obtain d f where E: "get_element_by_id p i = Some [PathEl d f]" "resolves f"
    using Cons.prems by auto
  show ?case
    using Cons.IH [of "main_path_step v p i st"] Cons.prems
      main_path_step_resolved [OF E, of v st]
    by simp
qed

text \<open>
  Claim C9, as stated: a document with \<open>N\<close> top-level paths and no group gives one
  background layer, when the background color resolves to a positive alpha, and a main
  layer of exactly \<open>N\<close> shape groups. A rectangle next to the one path gives the main
  layer two shape groups; and with the background \<open>red\<close>, which resolves to alpha 1,
  the hexadecimal reading of the background raises and nothing is assembled.
\<close>

theorem top_level_paths_counterexample:
  "top_level_paths doc_path_rect = 1 \<and> count_tag ''g'' doc_path_rect = 0 \<and>
   map_option layer_sizes
     (assembled_layers False (world_of doc_path_rect) no_config (new_parser False)) =
     Some [(''Background'', 1), (''Main Elements'', 2)] \<and>
   parse_color ''red'' = Inr (Finite 1, Finite 0, Finite 0, Finite 1) \<and>
   assemble False (world_of doc_one_path) (with_background ''red'') (new_parser False) =
     Inl ValueError"
  by code_simp

text \<open>
  Claim C9, amended: for every SVG document whose root has, as element children, \<open>N\<close>
  path elements and nothing else, the paths having no child elements and fills that the
  color resolver accepts without raising, and for a background color from which the
  converter can build its background layer (such as the default \<open>#ffffff\<close>), the
  assembled animation has exactly two layers: that background layer and one main layer
  with exactly \<open>N\<close> shape groups. There is no group layer.
\<close>

theorem paths_only_layers:
  assumes "parsed w = Some (Element ''svg'' attrs kids)"
    and "list_all plain_path kids"
    and "background_layer (merge_config ac) = Inr bg"
  shows "\<exists>m. assembled_layers v w ac p = Some [bg, m] \<and> layer_name m = ''Main Elements'' \<and>
           length (layer_shapes m) = top_level_paths (Element ''svg'' attrs kids)"
proof -
  define doc where "doc = Element ''svg'' attrs kids"
  define p2 where "p2 = snd (analyze_structure (p\<lparr>svg_doc := Some doc\<rparr>))"
  define p3 where "p3 = snd (get_svg_size p2)"
  define i where "i = element_id_of attrs (p\<lparr>svg_doc := Some doc, element_groups := empty_groups\<rparr>)"
  define q0 where "q0 = p\<lparr>svg_doc := Some doc, element_groups := empty_groups,
      structure_map := AList.update i (''svg'', None) (structure_map p)\<rparr>"
  have S: "node_elements_try ''svg'' attrs kids = Inr []"
    by (simp add: node_elements_try_def node_element_def)
  have P2: "p2 = fold (\<lambda>c. process_node c (Some i)) kids q0"
    by (simp add: p2_def analyze_structure_def analyze_with_minidom_def doc_def Let_def
        save_node_content_def S classify_def i_def q0_def)
  have "paths_resolve q0"
    by (simp add: paths_resolve_def q0_def empty_groups_def)
  then have R2: "paths_resolve p2"
    unfolding P2 by (rule fold_plain_paths [OF assms(2)])
  have R3: "groups (element_groups p3) = []" "shapes (element_groups p3) = []"
    "\<forall>i \<in> set (paths (element_groups p3)).
        \<exists>d f. get_element_by_id p3 i = Some [PathEl d f] \<and> resolves f"
    using R2 by (simp_all add: p3_def paths_resolve_def)
  have N: "length (paths (element_groups p3)) = top_level_paths doc"
    using analyze_counts(1) [of "p\<lparr>svg_doc := Some doc\<rparr>" doc] plain_count [OF assms(2)]
    by (simp add: p3_def p2_def doc_def)
  define an0 where "an0 = \<lparr>an_name = stem w, n_frames = cfg_n_frames (merge_config ac),
      framerate = cfg_framerate (merge_config ac), width = cfg_width (merge_config ac),
      height = cfg_height (merge_config ac), layers = [bg]\<rparr>"
  define m where "m = fst (main_layer v p3 (element_groups p3) [])"
  have A: "assemble v w ac p =
      Inr (Some (fst (process_element_groups v p3 (element_groups p3) (an0, [])), p3,
                 snd (process_element_groups v p3 (element_groups p3) (an0, []))))"
    using assms(1,3)
    by (simp add: assemble_def load_svg_def Let_def and_then_def get_element_groups_def
        split_beta p3_def p2_def doc_def an0_def)
  have L: "layers (fst (process_element_groups v p3 (element_groups p3) (an0, []))) = [bg, m]"
    by (simp add: process_element_groups_def Let_def R3(1) m_def an0_def)
  have M: "length (layer_shapes m) = top_level_paths doc"
    using fold_main_path_step_resolved [OF R3(3), of v
        "(\<lparr>layer_name = ''Main Elements'', layer_shapes = []\<rparr>, [])"] N
    by (simp add: m_def main_layer_def R3(2))
  have "assembled_layers v w ac p = Some [bg, m]"
    by (simp add: assembled_layers_def A L)
  moreover have "layer_name m = ''Main Elements''"
    by (simp add: m_def)
  ultimately show ?thesis using M by (auto simp: doc_def)
qed

text \<open>The theorem on a document with two paths and the default configuration.\<close>

theorem paths_only_layers_witness:
  "parsed (world_of doc_two_paths) =
     Some (Element ''svg'' []
       [Element ''path'' [(''d'', ''M0,0''), (''fill'', ''red'')] [], Other,
        Element ''path'' [(''id'', ''p'')] [Other]]) \<and>
   list_all plain_path
     [Element ''path'' [(''d'', ''M0,0''), (''fill'', ''red'')] [], Other,
      Element ''path'' [(''id'', ''p'')] [Other]] \<and>
   background_layer (merge_config no_config) = Inr white_background \<and>
   (\<exists>m. assembled_layers False (world_of doc_two_paths) no_config (new_parser False) =
           Some [white_background, m] \<and>
        layer_name m = ''Main Elements'' \<and> length (layer_shapes m) = 2)"
proof -
  have h1: "parsed (world_of doc_two_paths) =
      Some (Element ''svg'' []
        [Element ''path'' [(''d'', ''M0,0''), (''fill'', ''red'')] [], Other,
         Element ''path'' [(''id'', ''p'')] [Other]])"
    by (simp add: world_of_def doc_two_paths_def)
  have h2: "list_all plain_path
      [Element ''path'' [(''d'', ''M0,0''), (''fill'', ''red'')] [], Other,
       Element ''path'' [(''id'', ''p'')] [Other]]"
    by code_simp
  have h3: "background_layer (merge_config no_config) = Inr white_background"
    by code_simp
  have n: "top_level_paths (Element ''svg'' []
        [Element ''path'' [(''d'', ''M0,0''), (''fill'', ''red'')] [], Other,
         Element ''path'' [(''id'', ''p'')] [Other]]) = 2"
    by simp
  show ?thesis
    using paths_only_layers [OF h1 h2 h3, of False "new_parser False"] h1 h2 h3
    by (simp only: n)
qed

subsection \<open>Failing primitives\<close>


















end
